theory Spec2Isabelle
  imports Complex_Main
begin

section \<open>Python values, exceptions and builtins\<close>

text \<open>
  The values of a configuration document, as \<^verbatim>\<open>yaml.safe_load\<close> returns them: \<^verbatim>\<open>None\<close>,
  booleans, integers, finite floats (each the real number it denotes; no arithmetic is done
  on them), strings, lists, and mappings with string keys (an association list, each key
  listed once). A character of a string is a code point below 256.
\<close>

datatype pyval =
    PNone
  | PBool bool
  | PInt int
  | PFloat real
  | PStr string
  | PList "pyval list"
  | PDict "(string \<times> pyval) list"

text \<open>
  Exceptions of the SDK (boto3/botocore), as the \<^verbatim>\<open>except\<close> clauses of core.py tell them
  apart. \<^verbatim>\<open>ClientError\<close> is a refusal by the provider and carries its text, which
  core.py puts into its own messages; \<^verbatim>\<open>ParamValidationError\<close> is the SDK's own refusal
  of the arguments of a call, before anything is sent. Neither \<^verbatim>\<open>ParamValidationError\<close>
  nor \<^verbatim>\<open>WaiterError\<close> is a \<^verbatim>\<open>ClientError\<close>.
\<close>

datatype sdk_exn =
    NoCredentialsError
  | PartialCredentialsError
  | ClientError string
  | ParamValidationError
  | WaiterError string
  | OtherSdkError string

text \<open>
  Everything an operation can raise: the three classes of exceptions.py, the builtin
  exceptions of the Python code, the failure of opening or parsing a file, and an SDK
  exception that no \<^verbatim>\<open>except\<close> clause catches.
\<close>

datatype error =
    ConfigError string
  | AWSAuthError string
  | OperationError string
  | ValueError string
  | TypeError
  | KeyError string
  | IndexError
  | AttributeError
  | FileError string
  | SdkError sdk_exn

definition thenE :: "error + 'a \<Rightarrow> ('a \<Rightarrow> error + 'b) \<Rightarrow> error + 'b" where
  "thenE r f = (case r of Inl e \<Rightarrow> Inl e | Inr a \<Rightarrow> f a)"

text \<open>Truth value of an object, as \<^verbatim>\<open>if x:\<close> and \<^verbatim>\<open>x or y\<close> test it.\<close>

fun truthy :: "pyval \<Rightarrow> bool" where
  "truthy PNone = False"
| "truthy (PBool b) = b"
| "truthy (PInt i) = (i \<noteq> 0)"
| "truthy (PFloat x) = (x \<noteq> 0)"
| "truthy (PStr s) = (s \<noteq> [])"
| "truthy (PList xs) = (xs \<noteq> [])"
| "truthy (PDict kvs) = (kvs \<noteq> [])"

text \<open>Truth value of an optional string (\<^verbatim>\<open>None\<close> and the empty string are false).\<close>

fun str_truthy :: "string option \<Rightarrow> bool" where
  "str_truthy None = False"
| "str_truthy (Some s) = (s \<noteq> [])"

text \<open>\<^verbatim>\<open>d.get(k, default)\<close>: only a dict has the method.\<close>

fun py_get :: "pyval \<Rightarrow> string \<Rightarrow> pyval \<Rightarrow> error + pyval" where
  "py_get (PDict kvs) k dflt = Inr (case map_of kvs k of None \<Rightarrow> dflt | Some v \<Rightarrow> v)"
| "py_get _ k dflt = Inl AttributeError"

text \<open>\<^verbatim>\<open>d[k]\<close> for a string key.\<close>

fun py_item :: "pyval \<Rightarrow> string \<Rightarrow> error + pyval" where
  "py_item (PDict kvs) k = (case map_of kvs k of None \<Rightarrow> Inl (KeyError k) | Some v \<Rightarrow> Inr v)"
| "py_item _ k = Inl TypeError"

text \<open>\<^verbatim>\<open>xs[0]\<close> on a list.\<close>

fun py_first :: "'a list \<Rightarrow> error + 'a" where
  "py_first [] = Inl IndexError"
| "py_first (x # xs) = Inr x"

text \<open>\<^verbatim>\<open>list(x)\<close>: a list is copied, a string gives its characters, a dict its keys.\<close>

fun py_list :: "pyval \<Rightarrow> error + pyval list" where
  "py_list (PList xs) = Inr xs"
| "py_list (PStr s) = Inr (map (\<lambda>c. PStr [c]) s)"
| "py_list (PDict kvs) = Inr (map (\<lambda>kv. PStr (fst kv)) kvs)"
| "py_list _ = Inl TypeError"

text \<open>
  \<^verbatim>\<open>repr(s)\<close> of a string: double quotes only when the string has a single quote and no
  double quote; the quote and the backslash are escaped, tab, newline and return are written
  with their letters, and every other character that is not printable as \<^verbatim>\<open>\xhh\<close>.
\<close>

definition hex_digit :: "nat \<Rightarrow> char" where
  "hex_digit d = (if d < 10 then char_of (48 + d) else char_of (87 + d))"

definition repr_char :: "char \<Rightarrow> char \<Rightarrow> string" where
  "repr_char quote c =
     (let k = (of_char c :: nat) in
      if c = quote \<or> k = 0x5C then [CHR 0x5C, c]
      else if k = 0x09 then [CHR 0x5C, CHR ''t'']
      else if k = 0x0A then [CHR 0x5C, CHR ''n'']
      else if k = 0x0D then [CHR 0x5C, CHR ''r'']
      else if k < 0x20 \<or> k = 0x7F \<or> (0x80 \<le> k \<and> k \<le> 0xA0) \<or> k = 0xAD
        then [CHR 0x5C, CHR ''x'', hex_digit (k div 16), hex_digit (k mod 16)]
      else [c])"

definition py_repr :: "string \<Rightarrow> string" where
  "py_repr s =
     (let quote = (if CHR 0x27 \<in> set s \<and> CHR 0x22 \<notin> set s then CHR 0x22 else CHR 0x27)
      in [quote] @ concat (map (repr_char quote) s) @ [quote])"

text \<open>A natural number in decimal digits.\<close>

fun decimal :: "nat \<Rightarrow> string" where
  "decimal n =
     (if n < 10 then [char_of (48 + n)] else decimal (n div 10) @ [char_of (48 + n mod 10)])"

text \<open>
  \<^verbatim>\<open>int(s)\<close> for a string, as CPython 3.11 and later read it in base 10. Whitespace around
  the literal is skipped: tab, line feed, vertical tab, form feed, return, space, and the two
  space characters above 127 (U+0085, U+00A0). Then comes an optional sign and the digits,
  with single underscores allowed between two digits. The digits are read up to the first
  other character; more than 4300 of them are refused (the default limit) before the rest
  is looked at.
\<close>

definition int_space :: "char \<Rightarrow> bool" where
  "int_space c = ((of_char c :: nat) \<in> {0x09, 0x0A, 0x0B, 0x0C, 0x0D, 0x20, 0x85, 0xA0})"

definition digit_val :: "char \<Rightarrow> nat option" where
  "digit_val c = (let k = (of_char c :: nat) in
                  if 48 \<le> k \<and> k \<le> 57 then Some (k - 48) else None)"

text \<open>
  The run of digits and underscores at the head of a string: the value, the number of
  digits and the rest, or nothing when two underscores follow each other or the run ends
  with one.
\<close>

fun scan_digits :: "bool \<Rightarrow> int \<Rightarrow> nat \<Rightarrow> string \<Rightarrow> (int \<times> nat \<times> string) option" where
  "scan_digits after_underscore v n [] = (if after_underscore then None else Some (v, n, []))"
| "scan_digits after_underscore v n (c # cs) =
     (if c = CHR ''_'' then (if after_underscore then None else scan_digits True v n cs)
      else (case digit_val c of
              Some d \<Rightarrow> scan_digits False (10 * v + int d) (Suc n) cs
            | None \<Rightarrow> if after_underscore then None else Some (v, n, c # cs)))"

definition invalid_literal :: "string \<Rightarrow> error" where
  "invalid_literal s =
     ValueError (''invalid literal for int() with base 10: '' @ take 200 (py_repr s))"

definition too_many_digits :: "nat \<Rightarrow> error" where
  "too_many_digits n =
     ValueError (''Exceeds the limit (4300 digits) for integer string conversion: value has ''
       @ decimal n @ '' digits; use sys.set_int_max_str_digits() to increase the limit'')"

definition int_of_str :: "string \<Rightarrow> error + int" where
  "int_of_str s =
     (let body = dropWhile int_space s;
          negative = (case body of [] \<Rightarrow> False | c # cs \<Rightarrow> c = CHR ''-'');
          literal = (case body of
                       [] \<Rightarrow> []
                     | c # cs \<Rightarrow> if c = CHR ''-'' \<or> c = CHR ''+'' then cs else body)
      in case literal of
           [] \<Rightarrow> Inl (invalid_literal s)
         | c # cs \<Rightarrow>
             if c = CHR ''_'' then Inl (invalid_literal s)
             else (case scan_digits False 0 0 literal of
                     None \<Rightarrow> Inl (invalid_literal s)
                   | Some (v, n, rest) \<Rightarrow>
                       if 4300 < n then Inl (too_many_digits n)
                       else if n = 0 then Inl (invalid_literal s)
                       else if dropWhile int_space rest \<noteq> [] then Inl (invalid_literal s)
                       else Inr (if negative then - v else v)))"

text \<open>
  \<^verbatim>\<open>int(x)\<close>: an integer is itself, a boolean is 0 or 1, a finite float is cut towards
  zero, a string is read as above, and \<^verbatim>\<open>None\<close>, a list or a dict raise \<^verbatim>\<open>TypeError\<close>.
\<close>

fun py_int :: "pyval \<Rightarrow> error + int" where
  "py_int (PInt i) = Inr i"
| "py_int (PBool b) = Inr (if b then 1 else 0)"
| "py_int (PFloat x) = Inr (if x < 0 then \<lceil>x\<rceil> else \<lfloor>x\<rfloor>)"
| "py_int (PStr s) = int_of_str s"
| "py_int _ = Inl TypeError"

section \<open>utils.py\<close>

text \<open>
  \<^verbatim>\<open>load_config\<close>. The first argument stands for \<^verbatim>\<open>open\<close> followed by
  \<^verbatim>\<open>yaml.safe_load\<close>: the parsed document of a path, or the failure to read or parse it.
\<close>

definition load_config :: "(string \<Rightarrow> error + pyval) \<Rightarrow> string \<Rightarrow> error + pyval" where
  "load_config safe_load_file filepath =
     thenE (safe_load_file filepath) (\<lambda>loaded.
       let data = (if truthy loaded then loaded else PDict []) in
       (case data of
          PDict kvs \<Rightarrow>
            (case map_of kvs ''instance'' of
               Some (PDict section) \<Rightarrow> Inr data
             | _ \<Rightarrow> Inl (ValueError ''Missing 'instance' section in configuration''))
        | _ \<Rightarrow> Inl (ValueError ''Configuration file must define a YAML mapping at the top level'')))"


section \<open>The SDK seen from core.py\<close>

text \<open>
  A session is the pair of arguments of \<^verbatim>\<open>boto3.session.Session\<close> (profile name,
  region name); a client or resource handle is a session with a service name.
\<close>

type_synonym session = "string option \<times> string option"
type_synonym handle = "session \<times> string"

record api_filter =
  f_Name :: string
  f_Values :: "string list"

record tag_spec =
  ts_ResourceType :: string
  ts_Tags :: pyval

text \<open>
  The keyword arguments of \<^verbatim>\<open>run_instances\<close>. The five keys of the dict literal are
  always present; the others are \<open>None\<close> when the key is not set.
\<close>

record run_params =
  rp_ImageId :: pyval
  rp_InstanceType :: pyval
  rp_MinCount :: int
  rp_MaxCount :: int
  rp_ClientToken :: string
  rp_KeyName :: "pyval option"
  rp_SubnetId :: "pyval option"
  rp_SecurityGroupIds :: "pyval list option"
  rp_UserData :: "pyval option"
  rp_TagSpecifications :: "tag_spec list option"

text \<open>
  The calls of SDK methods made by the operations below. Whether the SDK sends a request to
  the provider for a call is the SDK's matter: a call that it answers with
  \<^verbatim>\<open>ParamValidationError\<close> or \<^verbatim>\<open>NoCredentialsError\<close> has sent nothing. A paginated
  request stands for the whole iteration over its pages.
\<close>

datatype call =
    Session session
  | Client session string
  | Resource session string
  | RunInstances handle run_params
  | InstanceLoad handle string
  | InstanceReload handle string
  | WaitUntilRunning handle string
  | StopInstances handle "string list"
  | StartInstances handle "string list"
  | TerminateInstances handle "string list"
  | WaiterWait handle string "string list"
  | DescribeVolumes handle "api_filter list option"

text \<open>The calls that change a resource at the provider.\<close>

fun mutating :: "call \<Rightarrow> bool" where
  "mutating (RunInstances h p) = True"
| "mutating (StopInstances h ids) = True"
| "mutating (StartInstances h ids) = True"
| "mutating (TerminateInstances h ids) = True"
| "mutating c = False"

text \<open>Responses, with the keys that core.py reads; \<open>None\<close> is an absent key.\<close>

record run_instance =
  ri_InstanceId :: "string option"

record run_response =
  rr_Instances :: "run_instance list option"

text \<open>The attributes of an \<^verbatim>\<open>ec2.Instance\<close> resource after \<^verbatim>\<open>load\<close> or \<^verbatim>\<open>reload\<close>.\<close>

record instance_attrs =
  ia_state_Name :: "string option"
  ia_private_ip_address :: "string option"
  ia_public_ip_address :: "string option"

record attachment =
  att_InstanceId :: "string option"
  att_Device :: "string option"

record volume =
  vol_VolumeId :: "string option"
  vol_Size :: "int option"
  vol_State :: "string option"
  vol_VolumeType :: "string option"
  vol_Iops :: "int option"
  vol_Throughput :: "int option"
  vol_AvailabilityZone :: "string option"
  vol_Attachments :: "attachment list option"

record volumes_page =
  vp_Volumes :: "volume list option"

text \<open>
  The environment of the program: the process environment, the UUID source and the SDK.
  Each SDK entry gets the calls made so far, so its answer may change over time.
  \<open>sdk_do\<close> answers the calls whose return value core.py does not use.
\<close>

record env =
  getenv :: "string \<Rightarrow> string option"
  uuid4 :: "nat \<Rightarrow> string"
  sdk_do :: "call \<Rightarrow> call list \<Rightarrow> sdk_exn + unit"
  sdk_run_instances :: "handle \<Rightarrow> run_params \<Rightarrow> call list \<Rightarrow> sdk_exn + run_response"
  sdk_instance :: "handle \<Rightarrow> string \<Rightarrow> call list \<Rightarrow> sdk_exn + instance_attrs"
  sdk_describe_volumes ::
    "handle \<Rightarrow> api_filter list option \<Rightarrow> call list \<Rightarrow> sdk_exn + volumes_page list"

section \<open>Operations as state transformers\<close>

text \<open>
  The state is the list of SDK calls made so far and the number of UUIDs drawn. An
  operation returns its value or the exception it raises, with the state it leaves.
\<close>

record world =
  trace :: "call list"
  uuid_ctr :: nat

type_synonym 'a action = "world \<Rightarrow> (error + 'a) \<times> world"

definition done_with :: "'a \<Rightarrow> 'a action" where
  "done_with a w = (Inr a, w)"

definition raise :: "error \<Rightarrow> 'a action" where
  "raise e w = (Inl e, w)"

definition pure :: "error + 'a \<Rightarrow> 'a action" where
  "pure r w = (r, w)"

definition and_then :: "'a action \<Rightarrow> ('a \<Rightarrow> 'b action) \<Rightarrow> 'b action" where
  "and_then f g w = (case f w of (Inl e, w') \<Rightarrow> (Inl e, w') | (Inr a, w') \<Rightarrow> g a w')"

text \<open>
  One SDK call: it is recorded, and its exception, if any, goes through the
  \<^verbatim>\<open>except\<close> clauses around the call.
\<close>

definition invoke ::
  "call \<Rightarrow> (call list \<Rightarrow> sdk_exn + 'a) \<Rightarrow> (sdk_exn \<Rightarrow> error) \<Rightarrow> 'a action" where
  "invoke c answer handler w =
     (case answer (trace w) of
        Inl x \<Rightarrow> (Inl (handler x), w\<lparr>trace := trace w @ [c]\<rparr>)
      | Inr a \<Rightarrow> (Inr a, w\<lparr>trace := trace w @ [c]\<rparr>))"

text \<open>The calls an action adds to the trace.\<close>

definition calls_made :: "'a action \<Rightarrow> world \<Rightarrow> call list" where
  "calls_made f w = drop (length (trace w)) (trace (snd (f w)))"

text \<open>The \<^verbatim>\<open>except\<close> clauses of core.py.\<close>

definition uncaught :: "sdk_exn \<Rightarrow> error" where
  "uncaught x = SdkError x"

definition except_init :: "sdk_exn \<Rightarrow> error" where
  "except_init x =
     (case x of
        NoCredentialsError \<Rightarrow> AWSAuthError ''AWS credentials not found. Use IAM roles or SSO profiles.''
      | PartialCredentialsError \<Rightarrow> AWSAuthError ''AWS credentials not found. Use IAM roles or SSO profiles.''
      | _ \<Rightarrow> SdkError x)"

definition except_auth :: "sdk_exn \<Rightarrow> error" where
  "except_auth x =
     (case x of
        NoCredentialsError \<Rightarrow> AWSAuthError ''Unable to locate credentials. Check AWS_PROFILE/SSO.''
      | PartialCredentialsError \<Rightarrow> AWSAuthError ''Unable to locate credentials. Check AWS_PROFILE/SSO.''
      | _ \<Rightarrow> SdkError x)"

definition except_auth_client :: "string \<Rightarrow> sdk_exn \<Rightarrow> error" where
  "except_auth_client prefix x =
     (case x of
        NoCredentialsError \<Rightarrow> AWSAuthError ''Unable to locate credentials. Check AWS_PROFILE/SSO.''
      | PartialCredentialsError \<Rightarrow> AWSAuthError ''Unable to locate credentials. Check AWS_PROFILE/SSO.''
      | ClientError msg \<Rightarrow> OperationError (prefix @ msg)
      | _ \<Rightarrow> SdkError x)"

text \<open>\<^verbatim>\<open>generate_client_token\<close> of utils.py: the next UUID, as a string.\<close>

definition generate_client_token :: "env \<Rightarrow> string action" where
  "generate_client_token E w = (Inr (uuid4 E (uuid_ctr w)), w\<lparr>uuid_ctr := Suc (uuid_ctr w)\<rparr>)"

section \<open>core.py: construction\<close>

text \<open>
  \<^verbatim>\<open>os.getenv("AWS_PROFILE") or os.getenv("AWS_DEFAULT_PROFILE")\<close>, and the session
  built from it: the profile is passed only when it is true.
\<close>

definition env_profile :: "env \<Rightarrow> string option" where
  "env_profile E =
     (if str_truthy (getenv E ''AWS_PROFILE'') then getenv E ''AWS_PROFILE''
      else getenv E ''AWS_DEFAULT_PROFILE'')"

definition session_for :: "env \<Rightarrow> string option \<Rightarrow> session" where
  "session_for E region_name =
     (if str_truthy (env_profile E) then (env_profile E, region_name) else (None, region_name))"

record manager =
  ec2_client :: handle
  ec2_res :: handle
  cw_client :: handle
  sts_client :: handle

definition EC2Manager_init :: "env \<Rightarrow> string option \<Rightarrow> manager action" where
  "EC2Manager_init E region_name =
     (let s = session_for E region_name in
      and_then (invoke (Session s) (sdk_do E (Session s)) except_init) (\<lambda>_.
      and_then (invoke (Client s ''ec2'') (sdk_do E (Client s ''ec2'')) except_init) (\<lambda>_.
      and_then (invoke (Resource s ''ec2'') (sdk_do E (Resource s ''ec2'')) except_init) (\<lambda>_.
      and_then (invoke (Client s ''cloudwatch'') (sdk_do E (Client s ''cloudwatch'')) except_init) (\<lambda>_.
      and_then (invoke (Client s ''sts'') (sdk_do E (Client s ''sts'')) except_init) (\<lambda>_.
      done_with \<lparr>ec2_client = (s, ''ec2''), ec2_res = (s, ''ec2''),
                 cw_client = (s, ''cloudwatch''), sts_client = (s, ''sts'')\<rparr>))))))"

text \<open>
  How every command of cli.py and every handler of the web front ends reaches an
  operation: construct the manager, then call one of its methods.
\<close>

definition with_manager :: "env \<Rightarrow> string option \<Rightarrow> (manager \<Rightarrow> 'a action) \<Rightarrow> 'a action" where
  "with_manager E region_name operation = and_then (EC2Manager_init E region_name) operation"

section \<open>core.py: creating an instance\<close>

record created =
  cr_InstanceId :: string
  cr_State :: "string option"
  cr_PrivateIpAddress :: "string option"
  cr_PublicIpAddress :: "string option"

text \<open>The four \<^verbatim>\<open>config.get\<close> at the head of \<^verbatim>\<open>create_instance\<close>.\<close>

definition config_sections :: "pyval \<Rightarrow> error + pyval \<times> pyval \<times> pyval \<times> pyval" where
  "config_sections config =
     thenE (py_get config ''instance'' (PDict [])) (\<lambda>instance_cfg.
     thenE (py_get config ''network'' (PDict [])) (\<lambda>network_cfg.
     thenE (py_get config ''user_data'' PNone) (\<lambda>user_data.
     thenE (py_get config ''tags'' (PList [])) (\<lambda>tags.
     Inr (instance_cfg, network_cfg, user_data, tags)))))"

text \<open>\<^verbatim>\<open>if d.get(k): params[k] = d[k]\<close>\<close>

definition optional_item :: "pyval \<Rightarrow> string \<Rightarrow> error + pyval option" where
  "optional_item d k =
     thenE (py_get d k PNone) (\<lambda>v.
       if truthy v then thenE (py_item d k) (\<lambda>x. Inr (Some x)) else Inr None)"

text \<open>The \<^verbatim>\<open>params\<close> dict of \<^verbatim>\<open>create_instance\<close>, in the order the code fills it.\<close>

definition run_instances_params ::
  "pyval \<Rightarrow> pyval \<Rightarrow> pyval \<Rightarrow> pyval \<Rightarrow> string \<Rightarrow> error + run_params" where
  "run_instances_params instance_cfg network_cfg user_data tags client_token =
     thenE (py_get instance_cfg ''ImageId'' PNone) (\<lambda>image_id.
     thenE (py_get instance_cfg ''InstanceType'' PNone) (\<lambda>instance_type.
     thenE (thenE (py_get instance_cfg ''MinCount'' (PInt 1)) py_int) (\<lambda>min_count.
     thenE (thenE (py_get instance_cfg ''MaxCount'' (PInt 1)) py_int) (\<lambda>max_count.
     thenE (optional_item instance_cfg ''KeyName'') (\<lambda>key_name.
     thenE (optional_item network_cfg ''SubnetId'') (\<lambda>subnet_id.
     thenE (thenE (optional_item network_cfg ''SecurityGroupIds'') (\<lambda>g.
              case g of None \<Rightarrow> Inr None | Some v \<Rightarrow> thenE (py_list v) (\<lambda>xs. Inr (Some xs))))
       (\<lambda>security_group_ids.
     Inr \<lparr>rp_ImageId = image_id,
          rp_InstanceType = instance_type,
          rp_MinCount = min_count,
          rp_MaxCount = max_count,
          rp_ClientToken = client_token,
          rp_KeyName = key_name,
          rp_SubnetId = subnet_id,
          rp_SecurityGroupIds = security_group_ids,
          rp_UserData = (if truthy user_data then Some user_data else None),
          rp_TagSpecifications =
            (if truthy tags then Some [\<lparr>ts_ResourceType = ''instance'', ts_Tags = tags\<rparr>]
             else None)\<rparr>)))))))"

definition create_instance :: "env \<Rightarrow> manager \<Rightarrow> pyval \<Rightarrow> created action" where
  "create_instance E self config =
     and_then (pure (config_sections config)) (\<lambda>(instance_cfg, network_cfg, user_data, tags).
     and_then (generate_client_token E) (\<lambda>client_token.
     and_then (pure (run_instances_params instance_cfg network_cfg user_data tags client_token))
       (\<lambda>params.
     and_then (invoke (RunInstances (ec2_client self) params)
                 (sdk_run_instances E (ec2_client self) params)
                 (except_auth_client ''Failed to create instance: '')) (\<lambda>resp.
       let instances = (case rr_Instances resp of None \<Rightarrow> [] | Some xs \<Rightarrow> xs) in
       if instances = [] then raise (OperationError ''No instance created.'')
       else
         and_then (pure (thenE (py_first instances) (\<lambda>i.
                     case ri_InstanceId i of
                       None \<Rightarrow> Inl (KeyError ''InstanceId'')
                     | Some v \<Rightarrow> Inr v))) (\<lambda>instance_id.
         and_then (invoke (WaitUntilRunning (ec2_res self) instance_id)
                     (sdk_do E (WaitUntilRunning (ec2_res self) instance_id)) uncaught) (\<lambda>_.
         and_then (invoke (InstanceReload (ec2_res self) instance_id)
                     (sdk_instance E (ec2_res self) instance_id) uncaught) (\<lambda>inst_res.
         done_with \<lparr>cr_InstanceId = instance_id,
                    cr_State = ia_state_Name inst_res,
                    cr_PrivateIpAddress = ia_private_ip_address inst_res,
                    cr_PublicIpAddress = ia_public_ip_address inst_res\<rparr>)))))))"

text \<open>
  The command \<^verbatim>\<open>instance create\<close> of cli.py: the configuration is loaded first, then the
  manager is constructed, then the instance is created. The exception that ends the
  command is its result; printing and the exit code are left out.
\<close>

definition instance_create ::
  "env \<Rightarrow> (string \<Rightarrow> error + pyval) \<Rightarrow> string option \<Rightarrow> string \<Rightarrow> created action" where
  "instance_create E safe_load_file region config_path =
     and_then (pure (load_config safe_load_file config_path)) (\<lambda>cfg.
     with_manager E region (\<lambda>mgr. create_instance E mgr cfg))"

section \<open>core.py: the instance lifecycle\<close>

record outcome =
  oc_InstanceId :: string
  oc_State :: "string option"
  oc_Message :: "string option"

definition get_instance_state :: "env \<Rightarrow> manager \<Rightarrow> string \<Rightarrow> string option action" where
  "get_instance_state E self instance_id =
     and_then (invoke (InstanceLoad (ec2_res self) instance_id)
                 (sdk_instance E (ec2_res self) instance_id) except_auth) (\<lambda>inst.
     done_with (ia_state_Name inst))"

definition stop_instance :: "env \<Rightarrow> manager \<Rightarrow> string \<Rightarrow> outcome action" where
  "stop_instance E self instance_id =
     and_then (get_instance_state E self instance_id) (\<lambda>state.
       if state = Some ''stopped'' \<or> state = Some ''stopping'' then
         and_then
           (if state = Some ''stopping''
            then invoke (WaiterWait (ec2_client self) ''instance_stopped'' [instance_id])
                   (sdk_do E (WaiterWait (ec2_client self) ''instance_stopped'' [instance_id]))
                   uncaught
            else done_with ()) (\<lambda>_.
         done_with \<lparr>oc_InstanceId = instance_id, oc_State = Some ''stopped'',
                    oc_Message = Some ''Already stopped''\<rparr>)
       else if state \<noteq> Some ''running'' then
         done_with \<lparr>oc_InstanceId = instance_id, oc_State = state,
                    oc_Message = Some ''Not in running state''\<rparr>
       else
         and_then (invoke (StopInstances (ec2_client self) [instance_id])
                     (sdk_do E (StopInstances (ec2_client self) [instance_id]))
                     (except_auth_client (''Failed to stop instance '' @ instance_id @ '': '')))
           (\<lambda>_.
         and_then (invoke (WaiterWait (ec2_client self) ''instance_stopped'' [instance_id])
                     (sdk_do E (WaiterWait (ec2_client self) ''instance_stopped'' [instance_id]))
                     (except_auth_client (''Failed to stop instance '' @ instance_id @ '': '')))
           (\<lambda>_.
         done_with \<lparr>oc_InstanceId = instance_id, oc_State = Some ''stopped'',
                    oc_Message = None\<rparr>)))"

definition start_instance :: "env \<Rightarrow> manager \<Rightarrow> string \<Rightarrow> outcome action" where
  "start_instance E self instance_id =
     and_then (get_instance_state E self instance_id) (\<lambda>state.
       if state = Some ''running'' \<or> state = Some ''pending'' then
         and_then
           (if state = Some ''pending''
            then invoke (WaiterWait (ec2_client self) ''instance_running'' [instance_id])
                   (sdk_do E (WaiterWait (ec2_client self) ''instance_running'' [instance_id]))
                   uncaught
            else done_with ()) (\<lambda>_.
         done_with \<lparr>oc_InstanceId = instance_id, oc_State = Some ''running'',
                    oc_Message = Some ''Already running''\<rparr>)
       else if state \<noteq> Some ''stopped'' then
         done_with \<lparr>oc_InstanceId = instance_id, oc_State = state,
                    oc_Message = Some ''Not in stopped state''\<rparr>
       else
         and_then (invoke (StartInstances (ec2_client self) [instance_id])
                     (sdk_do E (StartInstances (ec2_client self) [instance_id]))
                     (except_auth_client (''Failed to start instance '' @ instance_id @ '': '')))
           (\<lambda>_.
         and_then (invoke (WaiterWait (ec2_client self) ''instance_running'' [instance_id])
                     (sdk_do E (WaiterWait (ec2_client self) ''instance_running'' [instance_id]))
                     (except_auth_client (''Failed to start instance '' @ instance_id @ '': '')))
           (\<lambda>_.
         done_with \<lparr>oc_InstanceId = instance_id, oc_State = Some ''running'',
                    oc_Message = None\<rparr>)))"

definition terminate_instance :: "env \<Rightarrow> manager \<Rightarrow> string \<Rightarrow> outcome action" where
  "terminate_instance E self instance_id =
     and_then (get_instance_state E self instance_id) (\<lambda>state.
       if state = Some ''shutting-down'' \<or> state = Some ''terminated'' then
         and_then
           (if state = Some ''shutting-down''
            then invoke (WaiterWait (ec2_client self) ''instance_terminated'' [instance_id])
                   (sdk_do E (WaiterWait (ec2_client self) ''instance_terminated'' [instance_id]))
                   uncaught
            else done_with ()) (\<lambda>_.
         done_with \<lparr>oc_InstanceId = instance_id, oc_State = Some ''terminated'',
                    oc_Message = Some ''Already terminated''\<rparr>)
       else
         and_then (invoke (TerminateInstances (ec2_client self) [instance_id])
                     (sdk_do E (TerminateInstances (ec2_client self) [instance_id]))
                     (except_auth_client
                        (''Failed to terminate instance '' @ instance_id @ '': ''))) (\<lambda>_.
         and_then (invoke (WaiterWait (ec2_client self) ''instance_terminated'' [instance_id])
                     (sdk_do E (WaiterWait (ec2_client self) ''instance_terminated'' [instance_id]))
                     (except_auth_client
                        (''Failed to terminate instance '' @ instance_id @ '': ''))) (\<lambda>_.
         done_with \<lparr>oc_InstanceId = instance_id, oc_State = Some ''terminated'',
                    oc_Message = None\<rparr>)))"

section \<open>core.py: volumes\<close>

record volume_record =
  vr_VolumeId :: "string option"
  vr_SizeGiB :: "int option"
  vr_State :: "string option"
  vr_VolumeType :: "string option"
  vr_Iops :: "int option"
  vr_Throughput :: "int option"
  vr_AvailabilityZone :: "string option"
  vr_AttachedInstances :: "string option list"

text \<open>The dict appended for one volume.\<close>

definition volume_row :: "volume \<Rightarrow> volume_record" where
  "volume_row vol =
     (let attachments = (case vol_Attachments vol of None \<Rightarrow> [] | Some xs \<Rightarrow> xs) in
      \<lparr>vr_VolumeId = vol_VolumeId vol,
       vr_SizeGiB = vol_Size vol,
       vr_State = vol_State vol,
       vr_VolumeType = vol_VolumeType vol,
       vr_Iops = vol_Iops vol,
       vr_Throughput = vol_Throughput vol,
       vr_AvailabilityZone = vol_AvailabilityZone vol,
       vr_AttachedInstances = map att_InstanceId attachments\<rparr>)"

text \<open>
  \<^verbatim>\<open>list_volumes\<close>. The filter argument is passed only when the list of filters is not
  empty. The pages are fetched while the loop runs, outside the \<^verbatim>\<open>try\<close> block, so no
  exception of the request is caught.
\<close>

definition volume_filters :: "string option \<Rightarrow> api_filter list option" where
  "volume_filters status_filter =
     (let filters = (case status_filter of
                       None \<Rightarrow> []
                     | Some v \<Rightarrow> if v \<noteq> [] then [\<lparr>f_Name = ''status'', f_Values = [v]\<rparr>] else [])
      in if filters \<noteq> [] then Some filters else None)"

definition list_volumes :: "env \<Rightarrow> manager \<Rightarrow> string option \<Rightarrow> volume_record list action" where
  "list_volumes E self status_filter =
     and_then (invoke (DescribeVolumes (ec2_client self) (volume_filters status_filter))
                 (sdk_describe_volumes E (ec2_client self) (volume_filters status_filter))
                 uncaught) (\<lambda>page_it.
     done_with
       (foldl (\<lambda>results page.
                 foldl (\<lambda>results vol. results @ [volume_row vol]) results
                   (case vp_Volumes page of None \<Rightarrow> [] | Some vs \<Rightarrow> vs))
          [] page_it))"

section \<open>A sample environment\<close>

text \<open>
  A manager for one region, the state before any call, and an environment with
  credentials: the instance is in the given state, the listing of volumes is empty, and a
  run request creates one instance, unless its \<^verbatim>\<open>ImageId\<close> or \<^verbatim>\<open>InstanceType\<close> is not
  a string, which the SDK refuses.
\<close>

definition sample_manager :: manager where
  "sample_manager =
     \<lparr>ec2_client = ((None, Some ''us-east-1''), ''ec2''),
      ec2_res = ((None, Some ''us-east-1''), ''ec2''),
      cw_client = ((None, Some ''us-east-1''), ''cloudwatch''),
      sts_client = ((None, Some ''us-east-1''), ''sts'')\<rparr>"

definition initial_world :: world where
  "initial_world = \<lparr>trace = [], uuid_ctr = 0\<rparr>"

definition sample_attrs :: "string \<Rightarrow> instance_attrs" where
  "sample_attrs st =
     \<lparr>ia_state_Name = Some st, ia_private_ip_address = Some ''10.0.0.1'',
      ia_public_ip_address = None\<rparr>"

definition sample_env :: "string \<Rightarrow> env" where
  "sample_env st =
     \<lparr>getenv = (\<lambda>name. None),
      uuid4 = (\<lambda>n. replicate (Suc n) CHR ''u''),
      sdk_do = (\<lambda>c h. Inr ()),
      sdk_run_instances =
        (\<lambda>c p h. case (rp_ImageId p, rp_InstanceType p) of
                     (PStr ami, PStr kind) \<Rightarrow>
                       Inr \<lparr>rr_Instances = Some [\<lparr>ri_InstanceId = Some ''i-1''\<rparr>]\<rparr>
                   | _ \<Rightarrow> Inl ParamValidationError),
      sdk_instance = (\<lambda>c i h. Inr (sample_attrs st)),
      sdk_describe_volumes = (\<lambda>c f h. Inr [])\<rparr>"

text \<open>
  The sample environment with a provider that answers a run request with no instance; a
  configuration whose instance section is empty, and the request assembled from it.
\<close>

definition empty_run_env :: env where
  "empty_run_env =
     (sample_env ''running'')\<lparr>sdk_run_instances :=
        (\<lambda>c p h. case (rp_ImageId p, rp_InstanceType p) of
                     (PStr ami, PStr kind) \<Rightarrow> Inr \<lparr>rr_Instances = Some []\<rparr>
                   | _ \<Rightarrow> Inl ParamValidationError)\<rparr>"



text \<open>
  A configuration with an image and an instance type that carries a \<^verbatim>\<open>ClientToken\<close> of
  its own, and a typical one with an image and an instance type but no counts; the same
  request is assembled from both.
\<close>

definition token_config :: pyval where
  "token_config =
     PDict [(''instance'',
             PDict [(''ImageId'', PStr ''ami-12345678''), (''InstanceType'', PStr ''t3.micro''),
                    (''ClientToken'', PStr ''fixed'')]),
            (''ClientToken'', PStr ''fixed'')]"

definition typical_config :: pyval where
  "typical_config =
     PDict [(''instance'',
             PDict [(''ImageId'', PStr ''ami-12345678''), (''InstanceType'', PStr ''t3.micro'')])]"

definition typical_params :: "string \<Rightarrow> run_params" where
  "typical_params token =
     \<lparr>rp_ImageId = PStr ''ami-12345678'', rp_InstanceType = PStr ''t3.micro'',
      rp_MinCount = 1, rp_MaxCount = 1, rp_ClientToken = token, rp_KeyName = None,
      rp_SubnetId = None, rp_SecurityGroupIds = None, rp_UserData = None,
      rp_TagSpecifications = None\<rparr>"

text \<open>
  An environment without credentials, as boto3 has it: sessions, clients and resources are
  built without an exception, and every call that would send a request raises
  \<^verbatim>\<open>NoCredentialsError\<close>.
\<close>

definition missing_credentials_env :: env where
  "missing_credentials_env =
     \<lparr>getenv = (\<lambda>name. None),
      uuid4 = (\<lambda>n. replicate (Suc n) CHR ''u''),
      sdk_do = (\<lambda>c h. case c of
                         Session s \<Rightarrow> Inr ()
                       | Client s service \<Rightarrow> Inr ()
                       | Resource s service \<Rightarrow> Inr ()
                       | _ \<Rightarrow> Inl NoCredentialsError),
      sdk_run_instances =
        (\<lambda>c p h. case (rp_ImageId p, rp_InstanceType p) of
                     (PStr ami, PStr kind) \<Rightarrow> Inl NoCredentialsError
                   | _ \<Rightarrow> Inl ParamValidationError),
      sdk_instance = (\<lambda>c i h. Inl NoCredentialsError),
      sdk_describe_volumes = (\<lambda>c f h. Inl NoCredentialsError)\<rparr>"

text \<open>The volumes of a paginated answer, in the order of the pages.\<close>

definition volumes_of :: "volumes_page list \<Rightarrow> volume list" where
  "volumes_of pages =
     concat (map (\<lambda>page. case vp_Volumes page of None \<Rightarrow> [] | Some vs \<Rightarrow> vs) pages)"

text \<open>
  A provider with two volumes on three pages: the first attached to two instances, the
  second with no \<^verbatim>\<open>Attachments\<close> entry.
\<close>

definition sample_volume :: "string \<Rightarrow> attachment list option \<Rightarrow> volume" where
  "sample_volume vid atts =
     \<lparr>vol_VolumeId = Some vid, vol_Size = Some 8, vol_State = Some ''in-use'',
      vol_VolumeType = Some ''gp3'', vol_Iops = Some 3000, vol_Throughput = Some 125,
      vol_AvailabilityZone = Some ''us-east-1a'', vol_Attachments = atts\<rparr>"

definition sample_volume_pages :: "volumes_page list" where
  "sample_volume_pages =
     [\<lparr>vp_Volumes = Some [sample_volume ''vol-1''
          (Some [\<lparr>att_InstanceId = Some ''i-2'', att_Device = Some ''/dev/sdf''\<rparr>,
                 \<lparr>att_InstanceId = Some ''i-1'', att_Device = Some ''/dev/sdg''\<rparr>])]\<rparr>,
      \<lparr>vp_Volumes = None\<rparr>,
      \<lparr>vp_Volumes = Some [sample_volume ''vol-2'' None]\<rparr>]"

definition volumes_env :: env where
  "volumes_env =
     (sample_env ''running'')\<lparr>sdk_describe_volumes := (\<lambda>c f h. Inr sample_volume_pages)\<rparr>"

section \<open>Properties\<close>

lemmas action_defs = and_then_def invoke_def done_with_def raise_def pure_def

subsection \<open>Lifecycle operations in a state that does not fit the request\<close>

text \<open>
  Claim C1, as the code has it. \<^verbatim>\<open>stop_instance\<close> and \<^verbatim>\<open>start_instance\<close>: when the
  state that was read is neither the target state, nor the state on the way to it, nor the
  state the request starts from, the operation returns that state unchanged with the
  message "Not in running state" (respectively "Not in stopped state"), and the only call
  it makes is the read of the state, so no mutating call. \<^verbatim>\<open>terminate_instance\<close> has no
  such branch: in every state other than "shutting-down" and "terminated" it reads the state
  and then issues the terminate request.
\<close>

theorem lifecycle_incompatible_state:
  assumes "sdk_instance E (ec2_res self) iid (trace w) = Inr attrs"
  shows
    "(ia_state_Name attrs \<notin> {Some ''stopped'', Some ''stopping'', Some ''running''} \<longrightarrow>
        stop_instance E self iid w =
          (Inr \<lparr>oc_InstanceId = iid, oc_State = ia_state_Name attrs,
                oc_Message = Some ''Not in running state''\<rparr>,
           w\<lparr>trace := trace w @ [InstanceLoad (ec2_res self) iid]\<rparr>) \<and>
        \<not> list_ex mutating (calls_made (stop_instance E self iid) w)) \<and>
     (ia_state_Name attrs \<notin> {Some ''running'', Some ''pending'', Some ''stopped''} \<longrightarrow>
        start_instance E self iid w =
          (Inr \<lparr>oc_InstanceId = iid, oc_State = ia_state_Name attrs,
                oc_Message = Some ''Not in stopped state''\<rparr>,
           w\<lparr>trace := trace w @ [InstanceLoad (ec2_res self) iid]\<rparr>) \<and>
        \<not> list_ex mutating (calls_made (start_instance E self iid) w)) \<and>
     (ia_state_Name attrs \<notin> {Some ''shutting-down'', Some ''terminated''} \<longrightarrow>
        take 2 (calls_made (terminate_instance E self iid) w) =
          [InstanceLoad (ec2_res self) iid, TerminateInstances (ec2_client self) [iid]])"
proof (intro conjI impI)
  assume "ia_state_Name attrs \<notin> {Some ''stopped'', Some ''stopping'', Some ''running''}"
  with assms show stop: "stop_instance E self iid w =
          (Inr \<lparr>oc_InstanceId = iid, oc_State = ia_state_Name attrs,
                oc_Message = Some ''Not in running state''\<rparr>,
           w\<lparr>trace := trace w @ [InstanceLoad (ec2_res self) iid]\<rparr>)"
    by (simp add: stop_instance_def get_instance_state_def action_defs)
  show "\<not> list_ex mutating (calls_made (stop_instance E self iid) w)"
    by (simp add: stop calls_made_def)
next
  assume "ia_state_Name attrs \<notin> {Some ''running'', Some ''pending'', Some ''stopped''}"
  with assms show start: "start_instance E self iid w =
          (Inr \<lparr>oc_InstanceId = iid, oc_State = ia_state_Name attrs,
                oc_Message = Some ''Not in stopped state''\<rparr>,
           w\<lparr>trace := trace w @ [InstanceLoad (ec2_res self) iid]\<rparr>)"
    by (simp add: start_instance_def get_instance_state_def action_defs)
  show "\<not> list_ex mutating (calls_made (start_instance E self iid) w)"
    by (simp add: start calls_made_def)
next
  assume "ia_state_Name attrs \<notin> {Some ''shutting-down'', Some ''terminated''}"
  with assms show "take 2 (calls_made (terminate_instance E self iid) w) =
          [InstanceLoad (ec2_res self) iid, TerminateInstances (ec2_client self) [iid]]"
    by (simp add: terminate_instance_def get_instance_state_def action_defs calls_made_def
          split: sum.splits)
qed

text \<open>
  The theorem at three inputs: stop while "pending", start while "stopping", terminate while
  "running".
\<close>

theorem lifecycle_incompatible_state_witness:
  "stop_instance (sample_env ''pending'') sample_manager ''i-1'' initial_world =
     (Inr \<lparr>oc_InstanceId = ''i-1'', oc_State = Some ''pending'',
           oc_Message = Some ''Not in running state''\<rparr>,
      \<lparr>trace = [InstanceLoad (ec2_res sample_manager) ''i-1''], uuid_ctr = 0\<rparr>) \<and>
   start_instance (sample_env ''stopping'') sample_manager ''i-1'' initial_world =
     (Inr \<lparr>oc_InstanceId = ''i-1'', oc_State = Some ''stopping'',
           oc_Message = Some ''Not in stopped state''\<rparr>,
      \<lparr>trace = [InstanceLoad (ec2_res sample_manager) ''i-1''], uuid_ctr = 0\<rparr>) \<and>
   take 2 (calls_made (terminate_instance (sample_env ''running'') sample_manager ''i-1'')
             initial_world) =
     [InstanceLoad (ec2_res sample_manager) ''i-1'',
      TerminateInstances (ec2_client sample_manager) [''i-1'']]"
proof -
  have a: "sdk_instance (sample_env st) (ec2_res sample_manager) ''i-1'' (trace initial_world) =
             Inr (sample_attrs st)" for st
    by (simp add: sample_env_def)
  show ?thesis
    using lifecycle_incompatible_state [OF a [of "''pending''"]]
      lifecycle_incompatible_state [OF a [of "''stopping''"]]
      lifecycle_incompatible_state [OF a [of "''running''"]]
    by (simp add: sample_attrs_def initial_world_def)
qed

text \<open>
  Claim C1 as stated fails for \<^verbatim>\<open>terminate_instance\<close>: with the instance "pending",
  a state from which the state machine of the specification has no edge to "shutting-down",
  the terminate request is issued and the result reports "terminated" without a message.
\<close>

theorem terminate_pending_counterexample:
  "terminate_instance (sample_env ''pending'') sample_manager ''i-1'' initial_world =
     (Inr \<lparr>oc_InstanceId = ''i-1'', oc_State = Some ''terminated'', oc_Message = None\<rparr>,
      \<lparr>trace = [InstanceLoad (ec2_res sample_manager) ''i-1'',
                TerminateInstances (ec2_client sample_manager) [''i-1''],
                WaiterWait (ec2_client sample_manager) ''instance_terminated'' [''i-1'']],
       uuid_ctr = 0\<rparr>) \<and>
   list_ex mutating
     (calls_made (terminate_instance (sample_env ''pending'') sample_manager ''i-1'')
        initial_world)"
  by (simp add: terminate_instance_def get_instance_state_def action_defs calls_made_def
        sample_env_def sample_attrs_def initial_world_def except_auth_client_def)


subsection \<open>Lifecycle operations on an instance that is already settled or on its way\<close>

text \<open>
  Claim C2. When the state that was read is the target state of the operation ("stopped" for
  stop, "running" for start, "terminated" for terminate), the operation returns that state
  with the message "Already stopped" (respectively "Already running", "Already
  terminated"), and the read of the state is its only call. When the state is the
  transitional one ("stopping", "pending", "shutting-down"), the operation waits on the
  matching waiter and, once the waiter returns, gives the same result; the read and the
  wait are its only calls. No mutating call is made in either case.
\<close>

theorem lifecycle_already_settled:
  assumes "sdk_instance E (ec2_res self) iid (trace w) = Inr attrs"
  shows
    "(ia_state_Name attrs = Some ''stopped'' \<longrightarrow>
        stop_instance E self iid w =
          (Inr \<lparr>oc_InstanceId = iid, oc_State = Some ''stopped'',
                oc_Message = Some ''Already stopped''\<rparr>,
           w\<lparr>trace := trace w @ [InstanceLoad (ec2_res self) iid]\<rparr>)) \<and>
     (ia_state_Name attrs = Some ''stopping'' \<and>
      sdk_do E (WaiterWait (ec2_client self) ''instance_stopped'' [iid])
        (trace w @ [InstanceLoad (ec2_res self) iid]) = Inr () \<longrightarrow>
        stop_instance E self iid w =
          (Inr \<lparr>oc_InstanceId = iid, oc_State = Some ''stopped'',
                oc_Message = Some ''Already stopped''\<rparr>,
           w\<lparr>trace := trace w @ [InstanceLoad (ec2_res self) iid,
                  WaiterWait (ec2_client self) ''instance_stopped'' [iid]]\<rparr>)) \<and>
     (ia_state_Name attrs = Some ''running'' \<longrightarrow>
        start_instance E self iid w =
          (Inr \<lparr>oc_InstanceId = iid, oc_State = Some ''running'',
                oc_Message = Some ''Already running''\<rparr>,
           w\<lparr>trace := trace w @ [InstanceLoad (ec2_res self) iid]\<rparr>)) \<and>
     (ia_state_Name attrs = Some ''pending'' \<and>
      sdk_do E (WaiterWait (ec2_client self) ''instance_running'' [iid])
        (trace w @ [InstanceLoad (ec2_res self) iid]) = Inr () \<longrightarrow>
        start_instance E self iid w =
          (Inr \<lparr>oc_InstanceId = iid, oc_State = Some ''running'',
                oc_Message = Some ''Already running''\<rparr>,
           w\<lparr>trace := trace w @ [InstanceLoad (ec2_res self) iid,
                  WaiterWait (ec2_client self) ''instance_running'' [iid]]\<rparr>)) \<and>
     (ia_state_Name attrs = Some ''terminated'' \<longrightarrow>
        terminate_instance E self iid w =
          (Inr \<lparr>oc_InstanceId = iid, oc_State = Some ''terminated'',
                oc_Message = Some ''Already terminated''\<rparr>,
           w\<lparr>trace := trace w @ [InstanceLoad (ec2_res self) iid]\<rparr>)) \<and>
     (ia_state_Name attrs = Some ''shutting-down'' \<and>
      sdk_do E (WaiterWait (ec2_client self) ''instance_terminated'' [iid])
        (trace w @ [InstanceLoad (ec2_res self) iid]) = Inr () \<longrightarrow>
        terminate_instance E self iid w =
          (Inr \<lparr>oc_InstanceId = iid, oc_State = Some ''terminated'',
                oc_Message = Some ''Already terminated''\<rparr>,
           w\<lparr>trace := trace w @ [InstanceLoad (ec2_res self) iid,
                  WaiterWait (ec2_client self) ''instance_terminated'' [iid]]\<rparr>)) \<and>
     (ia_state_Name attrs \<in> {Some ''stopped'', Some ''stopping''} \<longrightarrow>
        \<not> list_ex mutating (calls_made (stop_instance E self iid) w)) \<and>
     (ia_state_Name attrs \<in> {Some ''running'', Some ''pending''} \<longrightarrow>
        \<not> list_ex mutating (calls_made (start_instance E self iid) w)) \<and>
     (ia_state_Name attrs \<in> {Some ''terminated'', Some ''shutting-down''} \<longrightarrow>
        \<not> list_ex mutating (calls_made (terminate_instance E self iid) w))"
  using assms
  by (auto simp: stop_instance_def start_instance_def terminate_instance_def
        get_instance_state_def action_defs calls_made_def split: sum.splits)

text \<open>The theorem at the six settled or transitional states, with a waiter that returns.\<close>

theorem lifecycle_already_settled_witness:
  "stop_instance (sample_env ''stopped'') sample_manager ''i-1'' initial_world =
     (Inr \<lparr>oc_InstanceId = ''i-1'', oc_State = Some ''stopped'',
           oc_Message = Some ''Already stopped''\<rparr>,
      \<lparr>trace = [InstanceLoad (ec2_res sample_manager) ''i-1''], uuid_ctr = 0\<rparr>) \<and>
   stop_instance (sample_env ''stopping'') sample_manager ''i-1'' initial_world =
     (Inr \<lparr>oc_InstanceId = ''i-1'', oc_State = Some ''stopped'',
           oc_Message = Some ''Already stopped''\<rparr>,
      \<lparr>trace = [InstanceLoad (ec2_res sample_manager) ''i-1'',
                WaiterWait (ec2_client sample_manager) ''instance_stopped'' [''i-1'']],
       uuid_ctr = 0\<rparr>) \<and>
   start_instance (sample_env ''running'') sample_manager ''i-1'' initial_world =
     (Inr \<lparr>oc_InstanceId = ''i-1'', oc_State = Some ''running'',
           oc_Message = Some ''Already running''\<rparr>,
      \<lparr>trace = [InstanceLoad (ec2_res sample_manager) ''i-1''], uuid_ctr = 0\<rparr>) \<and>
   start_instance (sample_env ''pending'') sample_manager ''i-1'' initial_world =
     (Inr \<lparr>oc_InstanceId = ''i-1'', oc_State = Some ''running'',
           oc_Message = Some ''Already running''\<rparr>,
      \<lparr>trace = [InstanceLoad (ec2_res sample_manager) ''i-1'',
                WaiterWait (ec2_client sample_manager) ''instance_running'' [''i-1'']],
       uuid_ctr = 0\<rparr>) \<and>
   terminate_instance (sample_env ''terminated'') sample_manager ''i-1'' initial_world =
     (Inr \<lparr>oc_InstanceId = ''i-1'', oc_State = Some ''terminated'',
           oc_Message = Some ''Already terminated''\<rparr>,
      \<lparr>trace = [InstanceLoad (ec2_res sample_manager) ''i-1''], uuid_ctr = 0\<rparr>) \<and>
   terminate_instance (sample_env ''shutting-down'') sample_manager ''i-1'' initial_world =
     (Inr \<lparr>oc_InstanceId = ''i-1'', oc_State = Some ''terminated'',
           oc_Message = Some ''Already terminated''\<rparr>,
      \<lparr>trace = [InstanceLoad (ec2_res sample_manager) ''i-1'',
                WaiterWait (ec2_client sample_manager) ''instance_terminated'' [''i-1'']],
       uuid_ctr = 0\<rparr>)"
proof -
  have a: "sdk_instance (sample_env st) (ec2_res sample_manager) ''i-1'' (trace initial_world) =
             Inr (sample_attrs st)" for st
    by (simp add: sample_env_def)
  have b: "sdk_do (sample_env st) c h = Inr ()" for st c h
    by (simp add: sample_env_def)
  show ?thesis
    using lifecycle_already_settled [OF a [of "''stopped''"]]
      lifecycle_already_settled [OF a [of "''stopping''"]]
      lifecycle_already_settled [OF a [of "''running''"]]
      lifecycle_already_settled [OF a [of "''pending''"]]
      lifecycle_already_settled [OF a [of "''terminated''"]]
      lifecycle_already_settled [OF a [of "''shutting-down''"]]
    by (simp add: sample_attrs_def initial_world_def b)
qed

subsection \<open>Creating an instance\<close>

text \<open>What the assembled request holds, and which calls \<^verbatim>\<open>create_instance\<close> makes.\<close>

lemma thenE_Inr_iff:
  "thenE r f = Inr b \<longleftrightarrow> (\<exists>a. r = Inr a \<and> f a = Inr b)"
  by (cases r) (simp_all add: thenE_def)

lemma run_instances_params_fields:
  assumes "run_instances_params (PDict ic) nc ud tg tok = Inr p"
  shows "rp_ClientToken p = tok"
    and "rp_ImageId p = (case map_of ic ''ImageId'' of None \<Rightarrow> PNone | Some v \<Rightarrow> v)"
    and "rp_InstanceType p = (case map_of ic ''InstanceType'' of None \<Rightarrow> PNone | Some v \<Rightarrow> v)"
    and "map_of ic ''MinCount'' = None \<Longrightarrow> rp_MinCount p = 1"
    and "map_of ic ''MaxCount'' = None \<Longrightarrow> rp_MaxCount p = 1"
  using assms
  by (auto simp: run_instances_params_def thenE_Inr_iff)

lemma run_instances_params_token:
  assumes "run_instances_params ic nc ud tg tok = Inr p"
  shows "rp_ClientToken p = tok"
  using assms
  by (auto simp: run_instances_params_def thenE_Inr_iff)

lemma create_instance_rejected:
  "config_sections config = Inl e \<Longrightarrow> calls_made (create_instance E self config) w = []"
  "config_sections config = Inr (ic, nc, ud, tg) \<Longrightarrow>
   run_instances_params ic nc ud tg (uuid4 E (uuid_ctr w)) = Inl e \<Longrightarrow>
     calls_made (create_instance E self config) w = []"
  by (simp_all add: create_instance_def action_defs generate_client_token_def calls_made_def)

lemma create_instance_calls:
  assumes "config_sections config = Inr (ic, nc, ud, tg)"
    and "run_instances_params ic nc ud tg (uuid4 E (uuid_ctr w)) = Inr p"
  shows "\<exists>rest. calls_made (create_instance E self config) w =
           RunInstances (ec2_client self) p # rest \<and>
           (\<forall>h q. RunInstances h q \<notin> set rest)"
    and "uuid_ctr (snd (create_instance E self config w)) = Suc (uuid_ctr w)"
  using assms
  by (auto simp: create_instance_def action_defs generate_client_token_def calls_made_def
        Let_def split: sum.splits option.splits)


text \<open>Without both keys the request is assembled as before, with \<^verbatim>\<open>None\<close> in their places.\<close>

lemma map_of_without_keys:
  "map_of (filter (\<lambda>kv. fst kv \<noteq> a \<and> fst kv \<noteq> b) kvs) k =
     (if k = a \<or> k = b then None else map_of kvs k)"
  by (induction kvs) auto

lemma optional_item_without_keys:
  "k \<noteq> a \<Longrightarrow> k \<noteq> b \<Longrightarrow>
   optional_item (PDict (filter (\<lambda>kv. fst kv \<noteq> a \<and> fst kv \<noteq> b) kvs)) k =
     optional_item (PDict kvs) k"
  by (simp add: optional_item_def map_of_without_keys thenE_def)

lemma run_instances_params_without_image:
  assumes "run_instances_params (PDict ic) nc ud tg tok = Inr p"
  shows "run_instances_params
           (PDict (filter (\<lambda>kv. fst kv \<noteq> ''ImageId'' \<and> fst kv \<noteq> ''InstanceType'') ic))
           nc ud tg tok = Inr (p\<lparr>rp_ImageId := PNone, rp_InstanceType := PNone\<rparr>)"
proof -
  let ?ic' = "filter (\<lambda>kv. fst kv \<noteq> ''ImageId'' \<and> fst kv \<noteq> ''InstanceType'') ic"
  from assms obtain mn mx kn sn sg where
    mn: "thenE (py_get (PDict ic) ''MinCount'' (PInt 1)) py_int = Inr mn"
    and mx: "thenE (py_get (PDict ic) ''MaxCount'' (PInt 1)) py_int = Inr mx"
    and kn: "optional_item (PDict ic) ''KeyName'' = Inr kn"
    and sn: "optional_item nc ''SubnetId'' = Inr sn"
    and sg: "thenE (optional_item nc ''SecurityGroupIds'') (\<lambda>g.
              case g of None \<Rightarrow> Inr None | Some v \<Rightarrow> thenE (py_list v) (\<lambda>xs. Inr (Some xs)))
             = Inr sg"
    and p: "p = \<lparr>rp_ImageId = (case map_of ic ''ImageId'' of None \<Rightarrow> PNone | Some v \<Rightarrow> v),
          rp_InstanceType = (case map_of ic ''InstanceType'' of None \<Rightarrow> PNone | Some v \<Rightarrow> v),
          rp_MinCount = mn,
          rp_MaxCount = mx,
          rp_ClientToken = tok,
          rp_KeyName = kn,
          rp_SubnetId = sn,
          rp_SecurityGroupIds = sg,
          rp_UserData = (if truthy ud then Some ud else None),
          rp_TagSpecifications =
            (if truthy tg then Some [\<lparr>ts_ResourceType = ''instance'', ts_Tags = tg\<rparr>]
             else None)\<rparr>"
    unfolding run_instances_params_def thenE_Inr_iff py_get.simps by blast
  have mn': "thenE (py_get (PDict ?ic') ''MinCount'' (PInt 1)) py_int = Inr mn"
    using mn by (simp add: map_of_without_keys)
  have mx': "thenE (py_get (PDict ?ic') ''MaxCount'' (PInt 1)) py_int = Inr mx"
    using mx by (simp add: map_of_without_keys)
  have kn': "optional_item (PDict ?ic') ''KeyName'' = Inr kn"
    using kn by (simp add: optional_item_without_keys)
  show ?thesis
    unfolding run_instances_params_def
    by (simp only: mn' mx' kn' sn sg) (simp add: thenE_def map_of_without_keys p)
qed

text \<open>
  \<^verbatim>\<open>create_instance\<close> checks neither key. Whenever the sections can be read and the
  arguments can be assembled (the counts convert to integers, the optional entries can be
  copied), its first call is \<^verbatim>\<open>run_instances\<close> of the SDK, with \<^verbatim>\<open>ImageId\<close> and
  \<^verbatim>\<open>InstanceType\<close> as the instance section has them, \<^verbatim>\<open>None\<close> when the key is missing;
  and whether the arguments can be assembled does not depend on the two keys.
\<close>

lemma create_instance_hands_over:
  assumes "config_sections config = Inr (PDict ic, nc, ud, tg)"
    and "run_instances_params (PDict ic) nc ud tg (uuid4 E (uuid_ctr w)) = Inr p"
  shows "take 1 (calls_made (create_instance E self config) w) =
           [RunInstances (ec2_client self) p] \<and>
         rp_ImageId p = (case map_of ic ''ImageId'' of None \<Rightarrow> PNone | Some v \<Rightarrow> v) \<and>
         rp_InstanceType p =
           (case map_of ic ''InstanceType'' of None \<Rightarrow> PNone | Some v \<Rightarrow> v) \<and>
         run_instances_params
           (PDict (filter (\<lambda>kv. fst kv \<noteq> ''ImageId'' \<and> fst kv \<noteq> ''InstanceType'') ic))
           nc ud tg (uuid4 E (uuid_ctr w)) =
           Inr (p\<lparr>rp_ImageId := PNone, rp_InstanceType := PNone\<rparr>)"
proof -
  from create_instance_calls(1) [OF assms, of self]
  obtain rest where
    "calls_made (create_instance E self config) w = RunInstances (ec2_client self) p # rest"
    by blast
  then have "take 1 (calls_made (create_instance E self config) w) =
               [RunInstances (ec2_client self) p]"
    by simp
  with run_instances_params_fields(2,3) [OF assms(2)]
    run_instances_params_without_image [OF assms(2)]
  show ?thesis
    by simp
qed


text \<open>
  Claim C4. When the provider answers the run request with a response that has no
  \<^verbatim>\<open>Instances\<close> entry or an empty one, \<^verbatim>\<open>create_instance\<close> raises
  \<^verbatim>\<open>OperationError("No instance created.")\<close>; the run request is its only call, and the
  first element of the empty list is never read (no \<^verbatim>\<open>IndexError\<close>).
\<close>

theorem create_instance_zero_instances:
  assumes "config_sections config = Inr (ic, nc, ud, tg)"
    and "run_instances_params ic nc ud tg (uuid4 E (uuid_ctr w)) = Inr p"
    and "sdk_run_instances E (ec2_client self) p (trace w) = Inr resp"
    and "rr_Instances resp = None \<or> rr_Instances resp = Some []"
  shows "create_instance E self config w =
           (Inl (OperationError ''No instance created.''),
            w\<lparr>trace := trace w @ [RunInstances (ec2_client self) p],
              uuid_ctr := Suc (uuid_ctr w)\<rparr>)"
  using assms
  by (auto simp: create_instance_def action_defs generate_client_token_def)

text \<open>
  The theorem at a typical configuration and a provider that returns an empty list of
  instances.
\<close>

theorem create_instance_zero_instances_witness:
  "create_instance empty_run_env sample_manager typical_config initial_world =
     (Inl (OperationError ''No instance created.''),
      \<lparr>trace = [RunInstances (ec2_client sample_manager) (typical_params ''u'')],
       uuid_ctr = 1\<rparr>)"
proof -
  let ?ic = "[(''ImageId'', PStr ''ami-12345678''), (''InstanceType'', PStr ''t3.micro'')]"
  have a: "config_sections typical_config = Inr (PDict ?ic, PDict [], PNone, PList [])"
    by (simp add: config_sections_def thenE_def typical_config_def)
  have b: "run_instances_params (PDict ?ic) (PDict []) PNone (PList [])
             (uuid4 empty_run_env (uuid_ctr initial_world)) = Inr (typical_params ''u'')"
    by (simp add: run_instances_params_def optional_item_def thenE_def typical_params_def
          empty_run_env_def sample_env_def initial_world_def)
  have c: "sdk_run_instances empty_run_env (ec2_client sample_manager) (typical_params ''u'')
             (trace initial_world) = Inr \<lparr>rr_Instances = Some []\<rparr>"
    by (simp add: empty_run_env_def typical_params_def)
  have d: "rr_Instances \<lparr>rr_Instances = Some []\<rparr> = None \<or>
           rr_Instances \<lparr>rr_Instances = Some ([] :: run_instance list)\<rparr> = Some []"
    by simp
  from create_instance_zero_instances [OF a b c d] show ?thesis
    by (simp add: initial_world_def)
qed

text \<open>Every run request of an invocation carries the UUID drawn by that invocation.\<close>

lemma create_instance_token:
  assumes "RunInstances h q \<in> set (calls_made (create_instance E self config) w)"
  shows "rp_ClientToken q = uuid4 E (uuid_ctr w)"
    and "uuid_ctr (snd (create_instance E self config w)) = Suc (uuid_ctr w)"
proof -
  obtain ic nc ud tg p where s: "config_sections config = Inr (ic, nc, ud, tg)"
    and p: "run_instances_params ic nc ud tg (uuid4 E (uuid_ctr w)) = Inr p"
  proof (cases "config_sections config")
    case (Inl e)
    with assms create_instance_rejected(1) [of config e E self w] show ?thesis
      by simp
  next
    case (Inr t)
    obtain ic nc ud tg where t: "t = (ic, nc, ud, tg)"
      by (cases t) auto
    show ?thesis
    proof (cases "run_instances_params ic nc ud tg (uuid4 E (uuid_ctr w))")
      case (Inl e)
      with assms Inr t create_instance_rejected(2) [of config ic nc ud tg E w e self]
      show ?thesis
        by simp
    next
      case (Inr p)
      with \<open>config_sections config = Inr t\<close> t that show ?thesis
        by blast
    qed
  qed
  from create_instance_calls(1) [OF s p, of self] obtain rest where
    c: "calls_made (create_instance E self config) w = RunInstances (ec2_client self) p # rest"
    and r: "\<forall>h q. RunInstances h q \<notin> set rest"
    by blast
  from assms c r have "q = p"
    by auto
  with run_instances_params_token [OF p] show "rp_ClientToken q = uuid4 E (uuid_ctr w)"
    by simp
  from create_instance_calls(2) [OF s p]
  show "uuid_ctr (snd (create_instance E self config w)) = Suc (uuid_ctr w)" .
qed

text \<open>
  Claim C5. The \<^verbatim>\<open>ClientToken\<close> of the run request that an invocation of
  \<^verbatim>\<open>create_instance\<close> submits is the UUID drawn inside that invocation, whatever the
  configuration holds. An invocation that starts after another one has drawn its UUID draws
  a later one, so, the UUID source never repeating a value, the two requests carry different
  tokens.
\<close>

theorem create_instance_fresh_token:
  assumes "inj (uuid4 E)"
    and "RunInstances h1 p1 \<in> set (calls_made (create_instance E self1 config1) w1)"
    and "RunInstances h2 p2 \<in> set (calls_made (create_instance E self2 config2) w2)"
    and "uuid_ctr (snd (create_instance E self1 config1 w1)) \<le> uuid_ctr w2"
  shows "rp_ClientToken p1 = uuid4 E (uuid_ctr w1) \<and>
         rp_ClientToken p2 = uuid4 E (uuid_ctr w2) \<and>
         rp_ClientToken p1 \<noteq> rp_ClientToken p2"
proof -
  have t1: "rp_ClientToken p1 = uuid4 E (uuid_ctr w1)"
    by (rule create_instance_token(1) [OF assms(2)])
  have t2: "rp_ClientToken p2 = uuid4 E (uuid_ctr w2)"
    by (rule create_instance_token(1) [OF assms(3)])
  from create_instance_token(2) [OF assms(2)] assms(4) have "uuid_ctr w1 \<noteq> uuid_ctr w2"
    by simp
  with assms(1) have "uuid4 E (uuid_ctr w1) \<noteq> uuid4 E (uuid_ctr w2)"
    by (simp add: inj_eq)
  with t1 t2 show ?thesis
    by simp
qed

text \<open>
  The theorem at two invocations in a row, on a configuration that holds a
  \<^verbatim>\<open>ClientToken\<close> entry of its own: the requests carry the first and the second UUID.
\<close>

theorem create_instance_fresh_token_witness:
  "inj (uuid4 (sample_env ''running'')) \<and>
   RunInstances (ec2_client sample_manager) (typical_params ''u'')
     \<in> set (calls_made (create_instance (sample_env ''running'') sample_manager token_config)
              initial_world) \<and>
   RunInstances (ec2_client sample_manager) (typical_params ''uu'')
     \<in> set (calls_made (create_instance (sample_env ''running'') sample_manager token_config)
              (snd (create_instance (sample_env ''running'') sample_manager token_config
                      initial_world))) \<and>
   rp_ClientToken (typical_params ''u'') \<noteq> rp_ClientToken (typical_params ''uu'')"
proof -
  let ?E = "sample_env ''running''"
  let ?w1 = "initial_world"
  let ?w2 = "snd (create_instance ?E sample_manager token_config initial_world)"
  have i: "inj (uuid4 ?E)"
    by (simp add: sample_env_def inj_def)
  have w2: "?w2 = \<lparr>trace = [RunInstances (ec2_client sample_manager) (typical_params ''u''),
                WaitUntilRunning (ec2_res sample_manager) ''i-1'',
                InstanceReload (ec2_res sample_manager) ''i-1''],
       uuid_ctr = 1\<rparr>"
    by (simp add: create_instance_def config_sections_def run_instances_params_def
        optional_item_def thenE_def action_defs generate_client_token_def token_config_def
        typical_params_def sample_env_def sample_manager_def sample_attrs_def initial_world_def)
  have a: "RunInstances (ec2_client sample_manager) (typical_params ''u'')
     \<in> set (calls_made (create_instance ?E sample_manager token_config) ?w1)"
    by (simp add: calls_made_def w2) (simp add: initial_world_def)
  have b: "RunInstances (ec2_client sample_manager) (typical_params ''uu'')
     \<in> set (calls_made (create_instance ?E sample_manager token_config) ?w2)"
    unfolding w2
    by (simp add: create_instance_def config_sections_def run_instances_params_def
        optional_item_def thenE_def action_defs generate_client_token_def token_config_def
        typical_params_def sample_env_def sample_manager_def sample_attrs_def calls_made_def)
  have c: "uuid_ctr ?w2 \<le> uuid_ctr ?w2"
    by simp
  from create_instance_fresh_token [OF i a b c] i a b show ?thesis
    by (simp add: typical_params_def)
qed

text \<open>
  Claim C10. When the instance section of the configuration has no \<^verbatim>\<open>MinCount\<close>
  (respectively \<^verbatim>\<open>MaxCount\<close>) key, the run request that \<^verbatim>\<open>create_instance\<close> submits
  has that count set to 1. The default comes from the call: a configuration that
  \<^verbatim>\<open>load_config\<close> returns is the parsed document as it was read, with nothing added.
\<close>

theorem create_instance_default_counts:
  assumes "config_sections config = Inr (PDict ic, nc, ud, tg)"
    and "run_instances_params (PDict ic) nc ud tg (uuid4 E (uuid_ctr w)) = Inr p"
  shows "take 1 (calls_made (create_instance E self config) w) =
           [RunInstances (ec2_client self) p] \<and>
         (map_of ic ''MinCount'' = None \<longrightarrow> rp_MinCount p = 1) \<and>
         (map_of ic ''MaxCount'' = None \<longrightarrow> rp_MaxCount p = 1) \<and>
         (load_config safe_load_file path = Inr config \<longrightarrow> safe_load_file path = Inr config)"
proof -
  have "safe_load_file path = Inr config" if "load_config safe_load_file path = Inr config"
    using that
    by (auto simp: load_config_def thenE_Inr_iff Let_def
          split: if_splits pyval.splits option.splits)
  moreover
  from create_instance_calls(1) [OF assms, of self]
  obtain rest where
    "calls_made (create_instance E self config) w = RunInstances (ec2_client self) p # rest"
    by blast
  then have "take 1 (calls_made (create_instance E self config) w) =
               [RunInstances (ec2_client self) p]"
    by simp
  ultimately show ?thesis
    using run_instances_params_fields(4,5) [OF assms(2)] by simp
qed

text \<open>
  The theorem at a configuration without counts, as the loader returns it: one instance is
  requested.
\<close>

theorem create_instance_default_counts_witness:
  "load_config (\<lambda>path. Inr typical_config) ''config.yaml'' = Inr typical_config \<and>
   take 1 (calls_made (create_instance (sample_env ''running'') sample_manager typical_config)
             initial_world) =
     [RunInstances (ec2_client sample_manager) (typical_params ''u'')] \<and>
   rp_MinCount (typical_params ''u'') = 1 \<and> rp_MaxCount (typical_params ''u'') = 1"
proof -
  let ?ic = "[(''ImageId'', PStr ''ami-12345678''), (''InstanceType'', PStr ''t3.micro'')]"
  have l: "load_config (\<lambda>path. Inr typical_config) ''config.yaml'' = Inr typical_config"
    by (simp add: load_config_def thenE_def typical_config_def)
  have a: "config_sections typical_config = Inr (PDict ?ic, PDict [], PNone, PList [])"
    by (simp add: config_sections_def thenE_def typical_config_def)
  have b: "run_instances_params (PDict ?ic) (PDict []) PNone (PList [])
             (uuid4 (sample_env ''running'') (uuid_ctr initial_world)) =
             Inr (typical_params ''u'')"
    by (simp add: run_instances_params_def optional_item_def thenE_def typical_params_def
          sample_env_def initial_world_def)
  from create_instance_default_counts [OF a b, of sample_manager] l show ?thesis
    by simp
qed

subsection \<open>Loading the configuration\<close>

text \<open>
  Every failure of \<^verbatim>\<open>load_config\<close> is the failure to read or parse the file, or one of
  its two \<^verbatim>\<open>ValueError\<close>s.
\<close>

lemma load_config_failures:
  assumes "load_config safe_load_file path = Inl e"
  shows "safe_load_file path = Inl e \<or>
         e = ValueError ''Configuration file must define a YAML mapping at the top level'' \<or>
         e = ValueError ''Missing 'instance' section in configuration''"
proof (cases "safe_load_file path")
  case (Inl e')
  with assms show ?thesis
    by (simp add: load_config_def thenE_def)
next
  case (Inr loaded)
  with assms show ?thesis
    by (cases "if truthy loaded then loaded else PDict []")
      (auto simp: load_config_def thenE_def Let_def split: option.splits pyval.splits)
qed

text \<open>
  Claim C8 at three inputs. A document whose top level is a list, and a mapping without an
  \<^verbatim>\<open>instance\<close> section, make \<^verbatim>\<open>load_config\<close> raise \<^verbatim>\<open>ValueError\<close>; the class
  \<^verbatim>\<open>ConfigError\<close> of exceptions.py is raised nowhere. The command \<^verbatim>\<open>instance create\<close>
  ends with that exception before any call to the SDK.
\<close>

theorem load_config_raises_value_error:
  "load_config (\<lambda>path. Inr (PList [PStr ''instance''])) ''config.yaml'' =
     Inl (ValueError ''Configuration file must define a YAML mapping at the top level'') \<and>
   load_config (\<lambda>path. Inr (PDict [(''network'', PDict [])])) ''config.yaml'' =
     Inl (ValueError ''Missing 'instance' section in configuration'') \<and>
   instance_create (sample_env ''running'') (\<lambda>path. Inr (PList [PStr ''instance'']))
       (Some ''us-east-1'') ''config.yaml'' initial_world =
     (Inl (ValueError ''Configuration file must define a YAML mapping at the top level''),
      initial_world)"
  by (simp add: load_config_def thenE_def instance_create_def action_defs)

subsection \<open>Operations without credentials\<close>

text \<open>
  The request of \<^verbatim>\<open>list_volumes\<close> is sent by the loop over the pages, after the
  \<^verbatim>\<open>try\<close> block: whatever the SDK raises for it leaves the operation as it is.
\<close>

lemma list_volumes_uncaught:
  assumes "sdk_describe_volumes E (ec2_client self) (volume_filters status_filter) (trace w) =
             Inl x"
  shows "list_volumes E self status_filter w =
           (Inl (SdkError x),
            w\<lparr>trace := trace w @
                 [DescribeVolumes (ec2_client self) (volume_filters status_filter)]\<rparr>)"
  using assms by (simp add: list_volumes_def action_defs uncaught_def)

text \<open>
  Claim C9 at an environment without credentials. The manager is constructed without an
  exception, since the SDK looks for credentials only when it sends a request. The
  operation \<^verbatim>\<open>list_volumes\<close> then ends with the raw \<^verbatim>\<open>NoCredentialsError\<close> of the SDK,
  not with \<^verbatim>\<open>AWSAuthError\<close>; \<^verbatim>\<open>stop_instance\<close>, whose request is inside its
  \<^verbatim>\<open>try\<close> block, ends with \<^verbatim>\<open>AWSAuthError\<close>.
\<close>

theorem missing_credentials_raw_error:
  "with_manager missing_credentials_env (Some ''us-east-1'')
     (\<lambda>mgr. list_volumes missing_credentials_env mgr None) initial_world =
     (Inl (SdkError NoCredentialsError),
      \<lparr>trace = [Session (None, Some ''us-east-1''),
                Client (None, Some ''us-east-1'') ''ec2'',
                Resource (None, Some ''us-east-1'') ''ec2'',
                Client (None, Some ''us-east-1'') ''cloudwatch'',
                Client (None, Some ''us-east-1'') ''sts'',
                DescribeVolumes ((None, Some ''us-east-1''), ''ec2'') None],
       uuid_ctr = 0\<rparr>) \<and>
   with_manager missing_credentials_env (Some ''us-east-1'')
     (\<lambda>mgr. stop_instance missing_credentials_env mgr ''i-1'') initial_world =
     (Inl (AWSAuthError ''Unable to locate credentials. Check AWS_PROFILE/SSO.''),
      \<lparr>trace = [Session (None, Some ''us-east-1''),
                Client (None, Some ''us-east-1'') ''ec2'',
                Resource (None, Some ''us-east-1'') ''ec2'',
                Client (None, Some ''us-east-1'') ''cloudwatch'',
                Client (None, Some ''us-east-1'') ''sts'',
                InstanceLoad ((None, Some ''us-east-1''), ''ec2'') ''i-1''],
       uuid_ctr = 0\<rparr>)"
  by (simp add: with_manager_def EC2Manager_init_def session_for_def env_profile_def
        list_volumes_def volume_filters_def stop_instance_def get_instance_state_def
        action_defs uncaught_def except_auth_def missing_credentials_env_def
        initial_world_def Let_def)

subsection \<open>Listing volumes\<close>

text \<open>Appending one row per volume, page after page, is a map over all volumes.\<close>

lemma foldl_append_rows:
  "foldl (\<lambda>results vol. results @ [f vol]) acc vs = acc @ map f vs"
  by (induction vs arbitrary: acc) simp_all

lemma foldl_append_pages:
  "foldl (\<lambda>results page. foldl (\<lambda>results vol. results @ [f vol]) results (g page)) acc pages =
     acc @ map f (concat (map g pages))"
  by (induction pages arbitrary: acc) (simp_all add: foldl_append_rows)

text \<open>
  Claim C7. When the provider answers the request of \<^verbatim>\<open>list_volumes\<close>, the operation
  returns one record per volume, in the order of the answer, and the
  \<^verbatim>\<open>AttachedInstances\<close> of each record is the list of the \<^verbatim>\<open>InstanceId\<close> entries of
  that volume's attachments, in the same order (the empty list when the volume has no
  \<^verbatim>\<open>Attachments\<close> entry).
\<close>

theorem list_volumes_attached_instances:
  assumes "sdk_describe_volumes E (ec2_client self) (volume_filters status_filter) (trace w) =
             Inr pages"
  shows "\<exists>records.
           fst (list_volumes E self status_filter w) = Inr records \<and>
           map vr_VolumeId records = map vol_VolumeId (volumes_of pages) \<and>
           map vr_AttachedInstances records =
             map (\<lambda>vol. map att_InstanceId
                           (case vol_Attachments vol of None \<Rightarrow> [] | Some xs \<Rightarrow> xs))
               (volumes_of pages)"
  using assms
  by (simp add: list_volumes_def action_defs foldl_append_pages volumes_of_def volume_row_def
        comp_def)

text \<open>The theorem at a provider with two volumes, the first attached to two instances.\<close>

theorem list_volumes_attached_instances_witness:
  "map vr_AttachedInstances (projr (fst (list_volumes volumes_env sample_manager None initial_world)))
     = [[Some ''i-2'', Some ''i-1''], []] \<and>
   map vr_VolumeId (projr (fst (list_volumes volumes_env sample_manager None initial_world)))
     = [Some ''vol-1'', Some ''vol-2'']"
proof -
  have a: "sdk_describe_volumes volumes_env (ec2_client sample_manager) (volume_filters None)
             (trace initial_world) = Inr sample_volume_pages"
    by (simp add: volumes_env_def)
  from list_volumes_attached_instances [OF a] show ?thesis
    by (auto simp: volumes_of_def sample_volume_pages_def sample_volume_def)
qed

end
